theory Spec2Isabelle
  imports Main
begin

section \<open>The debugger of SkDebugger.h\<close>

text \<open>
  The class \<open>SkDebugger\<close> has three private fields: the debug canvas it owns
  (\<open>SkDebugCanvas* fDebugCanvas\<close>), the picture that is loaded (\<open>SkPicture* fPicture\<close>,
  \<open>NULL\<close> when there is none) and the playback cursor (\<open>int fIndex\<close>).
  The classes \<open>SkDebugCanvas\<close>, \<open>SkPicture\<close>, \<open>SkCanvas\<close> and \<open>SkRect\<close> are only
  included by the header, so the record is polymorphic in the canvas and the picture, and
  every method of them that the header calls is a parameter of the function that calls it.
  The header only stores \<open>fIndex\<close> and compares it with \<open>0\<close>; it does no arithmetic on
  it, so the C++ \<open>int\<close> is an \<open>int\<close> here.
\<close>

record ('canvas, 'picture) SkDebugger =
  fDebugCanvas :: "'canvas"
  fPicture :: "'picture option"
  fIndex :: int

text \<open>\<^verbatim>\<open>void setIndex(int index) { fIndex = index; }\<close>\<close>

definition setIndex :: "int \<Rightarrow> ('canvas, 'picture) SkDebugger \<Rightarrow> ('canvas, 'picture) SkDebugger" where
  "setIndex index d = d\<lparr>fIndex := index\<rparr>"

text \<open>
  \<^verbatim>\<open>void draw(SkCanvas* canvas) { if (fIndex > 0) { fDebugCanvas->drawTo(canvas, fIndex); } }\<close>

  \<open>drawTo\<close> is a method of the debug canvas that is not \<open>const\<close>: it may change the debug
  canvas as well as the surface it draws to, so the parameter returns both, and \<open>draw\<close>
  returns the debugger and the surface as the call leaves them.
\<close>

definition draw ::
  "('canvas \<Rightarrow> 'surface \<Rightarrow> int \<Rightarrow> 'canvas \<times> 'surface) \<Rightarrow>
   ('canvas, 'picture) SkDebugger \<Rightarrow> 'surface \<Rightarrow> ('canvas, 'picture) SkDebugger \<times> 'surface" where
  "draw drawTo d canvas =
     (if fIndex d > 0 then
        (case drawTo (fDebugCanvas d) canvas (fIndex d) of
           (debugCanvas, canvas') \<Rightarrow> (d\<lparr>fDebugCanvas := debugCanvas\<rparr>, canvas'))
      else (d, canvas))"

text \<open>
  \<^verbatim>\<open>SkRect pictureCull() const { return NULL == fPicture ? SkRect::MakeEmpty() : fPicture->cullRect(); }\<close>

  \<open>SkRect::MakeEmpty()\<close> and \<open>SkPicture::cullRect()\<close> are the parameters \<open>MakeEmpty\<close> and
  \<open>cullRect\<close>.
\<close>

definition pictureCull :: "'rect \<Rightarrow> ('picture \<Rightarrow> 'rect) \<Rightarrow> ('canvas, 'picture) SkDebugger \<Rightarrow> 'rect" where
  "pictureCull MakeEmpty cullRect d =
     (case fPicture d of None \<Rightarrow> MakeEmpty | Some picture \<Rightarrow> cullRect picture)"

text \<open>\<^verbatim>\<open>int index() { return fIndex; }\<close>\<close>

definition index :: "('canvas, 'picture) SkDebugger \<Rightarrow> int" where
  "index d = fIndex d"

section \<open>The command log and the operations that the header only declares\<close>

text \<open>
  Modelled from the spec: the class \<open>SkDebugCanvas\<close> (the spec's CommandLog) is not among
  the sources. The spec gives it an ordered, index-addressable sequence of commands; the
  commands themselves stay abstract.
\<close>

record 'command CommandLog =
  commands :: "'command list"

text \<open>
  \<^verbatim>\<open>int getSize() { return fDebugCanvas->getSize(); }\<close>

  Modelled from the spec: \<open>SkDebugCanvas::getSize\<close> is missing; the size of the log is the
  number of its commands.
\<close>

definition getSize :: "('command CommandLog, 'picture) SkDebugger \<Rightarrow> int" where
  "getSize d = int (length (commands (fDebugCanvas d)))"

text \<open>
  Modelled from the spec: the constructor \<open>SkDebugger()\<close> is declared in the header and
  its body is missing. The spec: the Debugger is constructed with an empty CommandLog; no
  picture is loaded, and the cursor is 0 (nothing replayed yet).
\<close>

definition SkDebugger_new :: "('command CommandLog, 'picture) SkDebugger" where
  "SkDebugger_new = \<lparr>fDebugCanvas = \<lparr>commands = []\<rparr>, fPicture = None, fIndex = 0\<rparr>"

text \<open>
  Modelled from the spec: \<open>step\<close>, \<open>stepBack\<close>, \<open>play\<close> and \<open>rewind\<close> are declared in the
  header (\<^verbatim>\<open>void step(); void stepBack(); void play(); void rewind();\<close>) and their bodies
  are missing. The spec:
  step: \<open>cursorIndex = min(cursorIndex + 1, length)\<close>;
  stepBack: \<open>cursorIndex = max(cursorIndex - 1, 0)\<close>;
  play: \<open>cursorIndex = length\<close>; rewind: \<open>cursorIndex = 0\<close>.
\<close>

definition step :: "('command CommandLog, 'picture) SkDebugger \<Rightarrow> ('command CommandLog, 'picture) SkDebugger" where
  "step d = d\<lparr>fIndex := min (fIndex d + 1) (getSize d)\<rparr>"

definition stepBack :: "('canvas, 'picture) SkDebugger \<Rightarrow> ('canvas, 'picture) SkDebugger" where
  "stepBack d = d\<lparr>fIndex := max (fIndex d - 1) 0\<rparr>"

definition play :: "('command CommandLog, 'picture) SkDebugger \<Rightarrow> ('command CommandLog, 'picture) SkDebugger" where
  "play d = d\<lparr>fIndex := getSize d\<rparr>"

definition rewind :: "('canvas, 'picture) SkDebugger \<Rightarrow> ('canvas, 'picture) SkDebugger" where
  "rewind d = d\<lparr>fIndex := 0\<rparr>"

text \<open>
  Modelled from the spec: \<open>loadPicture\<close> is declared in the header
  (\<^verbatim>\<open>void loadPicture(SkPicture* picture);\<close>) and its body is missing. The spec: load
  replaces the picture and rebuilds the log from the picture's operations, in call order;
  it fails with \<open>InvalidPicture\<close> for a null picture and for one that cannot be decomposed,
  and then leaves the debugger as it was; it resets the cursor to 0 or to the length of the
  new log, which of the two the spec leaves open (\<open>load_policy\<close>). The decomposition of a
  picture belongs to the serialization layer and is the parameter \<open>decompose\<close>.
\<close>

datatype error = InvalidPicture

datatype load_policy = CursorToStart | CursorToEnd

definition loadPicture ::
  "load_policy \<Rightarrow> ('picture \<Rightarrow> 'command list option) \<Rightarrow> 'picture option \<Rightarrow>
   ('command CommandLog, 'picture) SkDebugger \<Rightarrow> error + ('command CommandLog, 'picture) SkDebugger" where
  "loadPicture policy decompose picture d =
     (case picture of
        None \<Rightarrow> Inl InvalidPicture
      | Some p \<Rightarrow>
          (case decompose p of
             None \<Rightarrow> Inl InvalidPicture
           | Some cmds \<Rightarrow>
               Inr \<lparr>fDebugCanvas = \<lparr>commands = cmds\<rparr>, fPicture = Some p,
                    fIndex = (case policy of CursorToStart \<Rightarrow> 0 | CursorToEnd \<Rightarrow> int (length cmds))\<rparr>))"

section \<open>Sequences of operations\<close>

text \<open>
  The operations that move the cursor, as a caller issues them one after the other on one
  debugger. A load that fails leaves the debugger as it was, and the caller goes on.
\<close>

datatype 'picture operation =
  LoadPicture "'picture option" | SetIndex int | Step | StepBack | Play | Rewind

fun apply_operation ::
  "load_policy \<Rightarrow> ('picture \<Rightarrow> 'command list option) \<Rightarrow> 'picture operation \<Rightarrow>
   ('command CommandLog, 'picture) SkDebugger \<Rightarrow> ('command CommandLog, 'picture) SkDebugger" where
  "apply_operation policy decompose (LoadPicture picture) d =
     (case loadPicture policy decompose picture d of Inl e \<Rightarrow> d | Inr d' \<Rightarrow> d')"
| "apply_operation policy decompose (SetIndex i) d = setIndex i d"
| "apply_operation policy decompose Step d = step d"
| "apply_operation policy decompose StepBack d = stepBack d"
| "apply_operation policy decompose Play d = play d"
| "apply_operation policy decompose Rewind d = rewind d"

text \<open>The debugger after each operation of a sequence, in order.\<close>

fun states_after ::
  "load_policy \<Rightarrow> ('picture \<Rightarrow> 'command list option) \<Rightarrow> 'picture operation list \<Rightarrow>
   ('command CommandLog, 'picture) SkDebugger \<Rightarrow> ('command CommandLog, 'picture) SkDebugger list" where
  "states_after policy decompose [] d = []"
| "states_after policy decompose (operation # rest) d =
     apply_operation policy decompose operation d #
     states_after policy decompose rest (apply_operation policy decompose operation d)"

text \<open>The cursor is in the range from 0 to the number of commands.\<close>

definition cursor_in_range :: "('command CommandLog, 'picture) SkDebugger \<Rightarrow> bool" where
  "cursor_in_range d = (0 \<le> fIndex d \<and> fIndex d \<le> getSize d)"

text \<open>
  Every \<open>setIndex\<close> of the sequence is called with an index between 0 and the number of
  commands of the log at the time of the call.
\<close>

fun setIndex_arguments_in_range ::
  "load_policy \<Rightarrow> ('picture \<Rightarrow> 'command list option) \<Rightarrow> 'picture operation list \<Rightarrow>
   ('command CommandLog, 'picture) SkDebugger \<Rightarrow> bool" where
  "setIndex_arguments_in_range policy decompose [] d = True"
| "setIndex_arguments_in_range policy decompose (operation # rest) d =
     ((case operation of SetIndex i \<Rightarrow> 0 \<le> i \<and> i \<le> getSize d | _ \<Rightarrow> True) \<and>
      setIndex_arguments_in_range policy decompose rest (apply_operation policy decompose operation d))"

section \<open>The cursor and the operations\<close>

lemma getSize_nonneg: "0 \<le> getSize d"
  by (simp add: getSize_def)

lemma getSize_fIndex_update [simp]: "getSize (d\<lparr>fIndex := i\<rparr>) = getSize d"
  by (simp add: getSize_def)

lemma step_in_range: "cursor_in_range d \<Longrightarrow> cursor_in_range (step d)"
  by (simp add: cursor_in_range_def step_def)

lemma stepBack_in_range: "cursor_in_range d \<Longrightarrow> cursor_in_range (stepBack d)"
  by (simp add: cursor_in_range_def stepBack_def)

lemma play_in_range: "cursor_in_range (play d)"
  by (simp add: cursor_in_range_def play_def getSize_nonneg)

lemma rewind_in_range: "cursor_in_range (rewind d)"
  by (simp add: cursor_in_range_def rewind_def getSize_nonneg)

lemma loadPicture_in_range:
  "loadPicture policy decompose picture d = Inr d' \<Longrightarrow> cursor_in_range d'"
  by (cases policy)
     (auto simp: loadPicture_def cursor_in_range_def getSize_def split: option.splits)

lemma setIndex_in_range_iff:
  "cursor_in_range (setIndex i d) \<longleftrightarrow> 0 \<le> i \<and> i \<le> getSize d"
  by (simp add: cursor_in_range_def setIndex_def)

lemma apply_operation_in_range:
  assumes "cursor_in_range d"
    and "case operation of SetIndex i \<Rightarrow> 0 \<le> i \<and> i \<le> getSize d | _ \<Rightarrow> True"
  shows "cursor_in_range (apply_operation policy decompose operation d)"
proof (cases operation)
  case (LoadPicture picture)
  show ?thesis
  proof (cases "loadPicture policy decompose picture d")
    case (Inl e)
    with LoadPicture assms(1) show ?thesis by simp
  next
    case (Inr d')
    with LoadPicture loadPicture_in_range [OF Inr] show ?thesis by simp
  qed
next
  case (SetIndex i)
  with assms(2) show ?thesis by (simp add: setIndex_in_range_iff)
next
  case Step
  with assms(1) show ?thesis by (simp add: step_in_range)
next
  case StepBack
  with assms(1) show ?thesis by (simp add: stepBack_in_range)
next
  case Play
  then show ?thesis by (simp add: play_in_range)
next
  case Rewind
  then show ?thesis by (simp add: rewind_in_range)
qed

lemma states_after_in_range:
  "cursor_in_range d \<Longrightarrow> setIndex_arguments_in_range policy decompose ops d \<Longrightarrow>
   list_all cursor_in_range (states_after policy decompose ops d)"
proof (induction ops arbitrary: d)
  case Nil
  then show ?case by simp
next
  case (Cons operation rest)
  from Cons.prems have arg: "case operation of SetIndex i \<Rightarrow> 0 \<le> i \<and> i \<le> getSize d | _ \<Rightarrow> True"
    and rest: "setIndex_arguments_in_range policy decompose rest (apply_operation policy decompose operation d)"
    by simp_all
  from apply_operation_in_range [OF Cons.prems(1) arg]
  have here: "cursor_in_range (apply_operation policy decompose operation d)" .
  from Cons.IH [OF here rest] here show ?case by simp
qed

lemma SkDebugger_new_in_range: "cursor_in_range SkDebugger_new"
  by (simp add: cursor_in_range_def SkDebugger_new_def getSize_def)

lemma step_funpow:
  "fIndex d \<le> getSize d \<Longrightarrow>
   (step ^^ k) d = d\<lparr>fIndex := min (fIndex d + int k) (getSize d)\<rparr>"
proof (induction k)
  case 0
  then show ?case by simp
next
  case (Suc k)
  then show ?case by (simp add: step_def min_def)
qed

lemma play_is_steps_from_start: "play d = (step ^^ nat (getSize d)) (rewind d)"
proof -
  have "fIndex (rewind d) \<le> getSize (rewind d)"
    by (simp add: rewind_def getSize_nonneg)
  from step_funpow [OF this, of "nat (getSize d)"] show ?thesis
    by (simp add: rewind_def play_def getSize_nonneg)
qed

section \<open>The claims\<close>

text \<open>
  C1, as amended. \<open>setIndex\<close> stores the index it is given and does not clamp it: after
  \<open>setIndex(i)\<close> the cursor is in the range from 0 to the number of commands exactly when
  \<open>i\<close> is. For every sequence of operations (loadPicture, setIndex, step, stepBack, play,
  rewind) on a newly constructed debugger in which every \<open>setIndex\<close> is given an index
  between 0 and the number of commands of the log at that time, the cursor is in that
  range at construction and after each operation of the sequence.
\<close>

theorem cursor_in_range_when_setIndex_in_range:
  "(cursor_in_range (setIndex i d) \<longleftrightarrow> 0 \<le> i \<and> i \<le> getSize d) \<and>
   (setIndex_arguments_in_range policy decompose ops SkDebugger_new \<longrightarrow>
      cursor_in_range (SkDebugger_new :: ('command CommandLog, 'picture) SkDebugger) \<and>
      list_all cursor_in_range (states_after policy decompose ops SkDebugger_new))"
proof (intro conjI impI)
  show "cursor_in_range (setIndex i d) \<longleftrightarrow> 0 \<le> i \<and> i \<le> getSize d"
    by (rule setIndex_in_range_iff)
next
  show "cursor_in_range (SkDebugger_new :: ('command CommandLog, 'picture) SkDebugger)"
    by (rule SkDebugger_new_in_range)
next
  assume "setIndex_arguments_in_range policy decompose ops SkDebugger_new"
  with SkDebugger_new_in_range
  show "list_all cursor_in_range (states_after policy decompose ops SkDebugger_new)"
    by (rule states_after_in_range)
qed

text \<open>
  A run of C1's theorem: a picture of three commands is loaded (the cursor going to the
  end of the log), then step, setIndex(2), play, stepBack, rewind and the load of a null
  picture; the cursor is 3, 3, 2, 3, 2, 0, 0.
\<close>

theorem cursor_in_range_when_setIndex_in_range_witness:
  "setIndex_arguments_in_range CursorToEnd Some
     [LoadPicture (Some ''abc''), Step, SetIndex 2, Play, StepBack, Rewind, LoadPicture None]
     (SkDebugger_new :: (char CommandLog, string) SkDebugger) \<and>
   list_all cursor_in_range
     (states_after CursorToEnd Some
        [LoadPicture (Some ''abc''), Step, SetIndex 2, Play, StepBack, Rewind, LoadPicture None]
        (SkDebugger_new :: (char CommandLog, string) SkDebugger)) \<and>
   map index
     (states_after CursorToEnd Some
        [LoadPicture (Some ''abc''), Step, SetIndex 2, Play, StepBack, Rewind, LoadPicture None]
        (SkDebugger_new :: (char CommandLog, string) SkDebugger)) = [3, 3, 2, 3, 2, 0, 0]"
proof -
  have ok: "setIndex_arguments_in_range CursorToEnd Some
     [LoadPicture (Some ''abc''), Step, SetIndex 2, Play, StepBack, Rewind, LoadPicture None]
     (SkDebugger_new :: (char CommandLog, string) SkDebugger)"
    by (simp add: SkDebugger_new_def loadPicture_def step_def setIndex_def play_def
        stepBack_def rewind_def getSize_def)
  have cursors: "map index
     (states_after CursorToEnd Some
        [LoadPicture (Some ''abc''), Step, SetIndex 2, Play, StepBack, Rewind, LoadPicture None]
        (SkDebugger_new :: (char CommandLog, string) SkDebugger)) = [3, 3, 2, 3, 2, 0, 0]"
    by (simp add: SkDebugger_new_def loadPicture_def step_def setIndex_def play_def
        stepBack_def rewind_def getSize_def index_def)
  from ok cursors
    cursor_in_range_when_setIndex_in_range [of 2 "SkDebugger_new :: (char CommandLog, string) SkDebugger"
      CursorToEnd Some
      "[LoadPicture (Some ''abc''), Step, SetIndex 2, Play, StepBack, Rewind, LoadPicture None]"]
  show ?thesis by blast
qed

text \<open>
  C1 as it is stated fails: on a newly constructed debugger \<open>setIndex(-1)\<close> leaves the
  cursor at -1, below 0; and after a picture of three commands is loaded, \<open>setIndex(7)\<close>
  leaves the cursor at 7, above the number of commands.
\<close>

theorem setIndex_leaves_range_counterexample:
  "map index (states_after CursorToStart Some [SetIndex (- 1)]
     (SkDebugger_new :: (char CommandLog, string) SkDebugger)) = [- 1] \<and>
   \<not> list_all cursor_in_range (states_after CursorToStart Some [SetIndex (- 1)]
     (SkDebugger_new :: (char CommandLog, string) SkDebugger)) \<and>
   map index (states_after CursorToStart Some [LoadPicture (Some ''abc''), SetIndex 7]
     (SkDebugger_new :: (char CommandLog, string) SkDebugger)) = [0, 7] \<and>
   map getSize (states_after CursorToStart Some [LoadPicture (Some ''abc''), SetIndex 7]
     (SkDebugger_new :: (char CommandLog, string) SkDebugger)) = [3, 3] \<and>
   \<not> list_all cursor_in_range (states_after CursorToStart Some [LoadPicture (Some ''abc''), SetIndex 7]
     (SkDebugger_new :: (char CommandLog, string) SkDebugger))"
  by (simp add: SkDebugger_new_def loadPicture_def setIndex_def getSize_def cursor_in_range_def index_def)

text \<open>
  C2. For every surface, \<open>draw\<close> hands the surface and the cursor to the debug canvas's
  \<open>drawTo\<close> (the replay of the commands before the cursor) when the cursor is greater
  than 0, and only then: otherwise it returns the debugger and the surface as they were.
  In particular \<open>draw\<close> after \<open>rewind\<close> does nothing.
\<close>

theorem draw_delegates_iff_cursor_positive:
  "draw drawTo d canvas =
     (if 0 < fIndex d
      then (d\<lparr>fDebugCanvas := fst (drawTo (fDebugCanvas d) canvas (fIndex d))\<rparr>,
            snd (drawTo (fDebugCanvas d) canvas (fIndex d)))
      else (d, canvas)) \<and>
   draw drawTo (rewind d) canvas = (rewind d, canvas)"
  by (simp add: draw_def rewind_def split: prod.splits)

text \<open>
  C4. For every log of N commands, \<open>play\<close> sets the cursor to N, and \<open>draw\<close> after
  \<open>play\<close> gives what \<open>draw\<close> gives after N calls of \<open>step\<close> that start at cursor 0.
\<close>

theorem play_then_draw_is_steps_then_draw:
  "fIndex (play d) = int (length (commands (fDebugCanvas d))) \<and>
   draw drawTo (play d) canvas =
     draw drawTo ((step ^^ length (commands (fDebugCanvas d))) (rewind d)) canvas"
proof
  show "fIndex (play d) = int (length (commands (fDebugCanvas d)))"
    by (simp add: play_def getSize_def)
next
  have "play d = (step ^^ length (commands (fDebugCanvas d))) (rewind d)"
    using play_is_steps_from_start [of d] by (simp add: getSize_def)
  then show "draw drawTo (play d) canvas =
      draw drawTo ((step ^^ length (commands (fDebugCanvas d))) (rewind d)) canvas"
    by simp
qed

text \<open>
  C10. When no picture is loaded (\<open>fPicture\<close> is null) \<open>pictureCull\<close> returns the empty
  rectangle of \<open>SkRect::MakeEmpty()\<close> and does not look at a picture; when a picture is
  loaded it returns the cull rectangle of that picture.
\<close>

theorem pictureCull_empty_without_picture:
  "pictureCull MakeEmpty cullRect (d\<lparr>fPicture := None\<rparr>) = MakeEmpty \<and>
   pictureCull MakeEmpty cullRect (d\<lparr>fPicture := Some picture\<rparr>) = cullRect picture"
  by (simp add: pictureCull_def)

end
